theory Spec2Isabelle
  imports Main
begin

section \<open>Python values and exceptions\<close>

text \<open>
  The authentication layer of the backend: the JWKS cache and the two token verifiers
  (\<^verbatim>\<open>app/core/security.py\<close>, \<^verbatim>\<open>app/api/deps.py\<close>) and the Stripe webhook endpoint
  (\<^verbatim>\<open>app/api/endpoints/webnooks.py\<close>).

  Exceptions are values. One constructor stands for an exception class together with the
  subclasses the handlers of the source do not tell apart; the string is \<^verbatim>\<open>str(e)\<close>.
  Times are whole seconds since the epoch.
\<close>

datatype exn =
    HTTPException nat string
  | AuthenticationError string
  | RequestException string
  | ExpiredSignatureError
  | InvalidTokenError string
  | InvalidKeyError
  | SignatureVerificationError string
  | KeyError string
  | TypeError
  | ValueError
  | UnicodeDecodeError
  | AttributeError

text \<open>\<^verbatim>\<open>str(e)\<close>, for the messages the handlers build from a caught exception.\<close>

fun exn_str :: "exn \<Rightarrow> string" where
  "exn_str (HTTPException s d) = d"
| "exn_str (AuthenticationError m) = m"
| "exn_str (RequestException m) = m"
| "exn_str ExpiredSignatureError = ''Signature has expired''"
| "exn_str (InvalidTokenError m) = m"
| "exn_str InvalidKeyError = ''Not a public or private key''"
| "exn_str (SignatureVerificationError m) = m"
| "exn_str (KeyError k) = [CHR 0x27] @ k @ [CHR 0x27]"
| "exn_str TypeError = ''TypeError''"
| "exn_str ValueError = ''ValueError''"
| "exn_str UnicodeDecodeError = ''UnicodeDecodeError''"
| "exn_str AttributeError = ''AttributeError''"

text \<open>The status code a raised exception carries: \<^verbatim>\<open>HTTPException.status_code\<close>, and 401 for
  \<^verbatim>\<open>AuthenticationError\<close> (\<^verbatim>\<open>DescriboException\<close> with \<^verbatim>\<open>HTTP_401_UNAUTHORIZED\<close>).\<close>

fun status_code :: "exn \<Rightarrow> nat option" where
  "status_code (HTTPException s d) = Some s"
| "status_code (AuthenticationError m) = Some 401"
| "status_code e = None"

text \<open>\<^verbatim>\<open>s.startswith(p)\<close> and \<^verbatim>\<open>s.split(c)\<close> for a one-character separator.\<close>

definition startswith :: "string \<Rightarrow> string \<Rightarrow> bool" where
  "startswith s p = (take (length p) s = p)"

fun split :: "char \<Rightarrow> string \<Rightarrow> string list" where
  "split c [] = [[]]"
| "split c (x # xs) =
     (if x = c then [] # split c xs
      else (case split c xs of [] \<Rightarrow> [[x]] | p # ps \<Rightarrow> (x # p) # ps))"

section \<open>The key-set cache: \<^verbatim>\<open>get_jwks\<close>\<close>

text \<open>
  A JSON Web Key of the key set: the code reads \<^verbatim>\<open>key["kid"]\<close> and hands the key to
  \<^verbatim>\<open>ECAlgorithm.from_jwk\<close>, which returns a public key or raises \<^verbatim>\<open>InvalidKeyError\<close>
  (\<open>ec_public_key = None\<close>). A key is named by a string.
\<close>

record jwk =
  jwk_kid :: string
  ec_public_key :: "string option"

text \<open>The module-level dictionary \<^verbatim>\<open>jwks_cache\<close>, its initial value and the lifetime.\<close>

record jwks_cache =
  keys :: "jwk list"
  last_fetched :: int

definition initial_jwks_cache :: jwks_cache where
  "initial_jwks_cache = \<lparr>keys = [], last_fetched = 0\<rparr>"

definition CACHE_LIFETIME_SECONDS :: int where
  "CACHE_LIFETIME_SECONDS = 3600"

text \<open>
  What the remote end answers to \<^verbatim>\<open>requests.get(jwks_url)\<close>: no answer at all (a connection
  error or a timeout), or a status code and a body. Of the body the code uses
  \<^verbatim>\<open>response.json()["keys"]\<close>, so a body is: not JSON, a JSON value that is not an object,
  a JSON object without the member \<^verbatim>\<open>keys\<close>, or an object whose \<^verbatim>\<open>keys\<close> is an array of keys.
  An object whose \<^verbatim>\<open>keys\<close> is not an array (\<^verbatim>\<open>null\<close>, say), which the code would store as
  it is, is not among the bodies.
\<close>

datatype body = NotJSON | JSONNotObject | JSONNoKeys | JSONKeys "jwk list"

datatype http_reply = NetworkError string | Reply nat body

text \<open>
  Lines 27 to 29: \<^verbatim>\<open>requests.get\<close>, \<^verbatim>\<open>raise_for_status\<close> (an \<^verbatim>\<open>HTTPError\<close> for a status
  from 400 to 599) and \<^verbatim>\<open>response.json()["keys"]\<close>. A body that is not JSON raises
  \<^verbatim>\<open>requests.exceptions.JSONDecodeError\<close>, a \<^verbatim>\<open>RequestException\<close>; subscripting an object
  without the member raises \<^verbatim>\<open>KeyError\<close>, and subscripting a list, a string, a number or
  \<^verbatim>\<open>None\<close> with a string raises \<^verbatim>\<open>TypeError\<close>.
\<close>

fun fetch_keys :: "http_reply \<Rightarrow> exn + jwk list" where
  "fetch_keys (NetworkError m) = Inl (RequestException m)"
| "fetch_keys (Reply st b) =
     (if 400 \<le> st \<and> st < 600 then Inl (RequestException ''HTTPError'')
      else (case b of
              NotJSON \<Rightarrow> Inl (RequestException ''JSONDecodeError'')
            | JSONNotObject \<Rightarrow> Inl TypeError
            | JSONNoKeys \<Rightarrow> Inl (KeyError ''keys'')
            | JSONKeys ks \<Rightarrow> Inr ks))"

text \<open>
  One call of \<^verbatim>\<open>get_jwks\<close>: what it returns or raises, the cache it leaves, and how many
  remote fetches it made. \<open>reply\<close> is what the remote end answers if it is asked during
  this call, \<open>current_time\<close> is \<^verbatim>\<open>time.time()\<close>.
\<close>

record jwks_call =
  returned :: "exn + jwk list"
  cache_after :: jwks_cache
  remote_fetches :: nat

definition get_jwks :: "http_reply \<Rightarrow> int \<Rightarrow> jwks_cache \<Rightarrow> jwks_call" where
  "get_jwks reply current_time cache =
     (if keys cache = [] \<or> current_time - last_fetched cache > CACHE_LIFETIME_SECONDS then
        (case fetch_keys reply of
           Inl (RequestException m) \<Rightarrow>
             \<lparr>returned = Inl (HTTPException 503 (''Could not fetch JWKS: '' @ m)),
              cache_after = cache, remote_fetches = 1\<rparr>
         | Inl e \<Rightarrow> \<lparr>returned = Inl e, cache_after = cache, remote_fetches = 1\<rparr>
         | Inr ks \<Rightarrow>
             \<lparr>returned = Inr ks,
              cache_after = \<lparr>keys = ks, last_fetched = current_time\<rparr>,
              remote_fetches = 1\<rparr>)
      else \<lparr>returned = Inr (keys cache), cache_after = cache, remote_fetches = 0\<rparr>)"

text \<open>
  Successive calls of \<^verbatim>\<open>get_jwks\<close> by successive requests, each with the answer the remote
  end would give and the time of the call; the cache is threaded through, also past a call
  that raised.
\<close>

fun get_jwks_calls :: "jwks_cache \<Rightarrow> (http_reply \<times> int) list \<Rightarrow> jwks_call list" where
  "get_jwks_calls cache [] = []"
| "get_jwks_calls cache ((reply, t) # rest) =
     (let r = get_jwks reply t cache in r # get_jwks_calls (cache_after r) rest)"

section \<open>Tokens: the PyJWT calls\<close>

text \<open>
  PyJWT is a third-party library. Its three calls are modelled by what the library does
  with a token, on the token as the library sees it once it has split and decoded the
  compact form: the header's \<^verbatim>\<open>alg\<close> and \<^verbatim>\<open>kid\<close>, the claims, and for which algorithm and
  key the signature verifies. \<open>load\<close> is that decoding; it has no result for a string that
  is not a well-formed token. Of the registered claims the model has the ones the two
  callers depend on: \<^verbatim>\<open>exp\<close>, \<^verbatim>\<open>nbf\<close> and \<^verbatim>\<open>aud\<close>.
\<close>

datatype key = ECPublicKey string | SharedSecret string

record claims =
  claim_sub :: "string option"
  claim_email :: "string option"
  claim_role :: "string option"
  claim_aud :: "string list option"
  claim_exp :: "int option"
  claim_nbf :: "int option"

record jwt =
  hdr_alg :: string
  hdr_kid :: "string option"
  jwt_payload :: claims
  signature_ok :: "string \<Rightarrow> key \<Rightarrow> bool"

text \<open>\<^verbatim>\<open>jwt.get_unverified_header(token).get("kid")\<close>; a malformed token raises
  \<^verbatim>\<open>DecodeError\<close>, an \<^verbatim>\<open>InvalidTokenError\<close>.\<close>

definition get_unverified_header_kid :: "(string \<Rightarrow> jwt option) \<Rightarrow> string \<Rightarrow> exn + string option" where
  "get_unverified_header_kid load tok =
     (case load tok of
        None \<Rightarrow> Inl (InvalidTokenError ''Not enough segments'')
      | Some t \<Rightarrow> Inr (hdr_kid t))"

text \<open>
  The claim checks of \<^verbatim>\<open>jwt.decode\<close>, in the library's order: \<^verbatim>\<open>nbf\<close> is in the future
  beyond the leeway (\<^verbatim>\<open>ImmatureSignatureError\<close>), \<^verbatim>\<open>exp <= now - leeway\<close>
  (\<^verbatim>\<open>ExpiredSignatureError\<close>), then the audience: the claim is missing or empty
  (\<^verbatim>\<open>MissingRequiredClaimError\<close>) or does not hold the expected value
  (\<^verbatim>\<open>InvalidAudienceError\<close>). All but \<^verbatim>\<open>ExpiredSignatureError\<close> are told apart by their
  message only.
\<close>

definition missing_aud :: string where
  "missing_aud = ''Token is missing the '' @ [CHR 0x22] @ ''aud'' @ [CHR 0x22] @ '' claim''"

definition audience_mismatch :: string where
  "audience_mismatch = ''Audience doesn'' @ [CHR 0x27] @ ''t match''"

definition validate_claims :: "int \<Rightarrow> claims \<Rightarrow> string \<Rightarrow> int \<Rightarrow> exn + claims" where
  "validate_claims now p audience leeway =
     (if (case claim_nbf p of None \<Rightarrow> False | Some nbf \<Rightarrow> nbf > now + leeway)
        then Inl (InvalidTokenError ''The token is not yet valid (nbf)'')
      else if (case claim_exp p of None \<Rightarrow> False | Some e \<Rightarrow> e \<le> now - leeway)
        then Inl ExpiredSignatureError
      else (case claim_aud p of
              None \<Rightarrow> Inl (InvalidTokenError missing_aud)
            | Some auds \<Rightarrow>
                if auds = [] then Inl (InvalidTokenError missing_aud)
                else if audience \<notin> set auds then Inl (InvalidTokenError audience_mismatch)
                else Inr p))"

text \<open>\<^verbatim>\<open>jwt.decode(token, key, algorithms=..., audience=..., leeway=...)\<close>: the token is
  decoded, its algorithm must be one of \<open>algorithms\<close>, its signature must verify for the
  key, and then the claims are checked. The default leeway is 0.\<close>

definition jwt_decode ::
  "(string \<Rightarrow> jwt option) \<Rightarrow> int \<Rightarrow> string \<Rightarrow> key \<Rightarrow> string list \<Rightarrow> string \<Rightarrow> int \<Rightarrow> exn + claims" where
  "jwt_decode load now tok k algorithms audience leeway =
     (case load tok of
        None \<Rightarrow> Inl (InvalidTokenError ''Not enough segments'')
      | Some t \<Rightarrow>
          if hdr_alg t \<notin> set algorithms
            then Inl (InvalidTokenError ''The specified alg value is not allowed'')
          else if \<not> signature_ok t (hdr_alg t) k
            then Inl (InvalidTokenError ''Signature verification failed'')
          else validate_claims now (jwt_payload t) audience leeway)"

section \<open>\<^verbatim>\<open>verify_token\<close> (\<^verbatim>\<open>app/core/security.py\<close>)\<close>

text \<open>Lines 41 to 45: the token is the second piece of an \<^verbatim>\<open>Authorization\<close> header that
  starts with \<^verbatim>\<open>Bearer \<close> and is split at spaces. Such a header has at least two pieces.\<close>

definition bearer_token :: "string option \<Rightarrow> string option" where
  "bearer_token auth_header =
     (case auth_header of
        None \<Rightarrow> None
      | Some h \<Rightarrow>
          if h \<noteq> [] \<and> startswith h ''Bearer ''
          then (case split CHR '' '' h of a # t # rest \<Rightarrow> Some t | _ \<Rightarrow> None)
          else None)"

text \<open>Lines 60 to 64: the first key of the set with the token's \<^verbatim>\<open>kid\<close> is converted by
  \<^verbatim>\<open>ECAlgorithm.from_jwk\<close> and the loop ends; no such key leaves \<^verbatim>\<open>signing_key = None\<close>.\<close>

fun find_signing_key :: "jwk list \<Rightarrow> string \<Rightarrow> exn + key option" where
  "find_signing_key [] kid = Inr None"
| "find_signing_key (k # ks) kid =
     (if jwk_kid k = kid
      then (case ec_public_key k of
              None \<Rightarrow> Inl InvalidKeyError
            | Some pk \<Rightarrow> Inr (Some (ECPublicKey pk)))
      else find_signing_key ks kid)"

text \<open>The two \<^verbatim>\<open>except\<close> clauses of lines 79 to 88; any other exception, the
  \<^verbatim>\<open>HTTPException\<close> of \<^verbatim>\<open>get_jwks\<close> among them, passes.\<close>

fun verify_token_except :: "exn + 'a \<Rightarrow> exn + 'a" where
  "verify_token_except (Inl ExpiredSignatureError) = Inl (HTTPException 401 ''Token has expired'')"
| "verify_token_except (Inl (InvalidTokenError m)) = Inl (HTTPException 401 (''Invalid token: '' @ m))"
| "verify_token_except r = r"

text \<open>The dictionary \<^verbatim>\<open>{"user": payload, "token": token}\<close>.\<close>

record verified =
  user :: claims
  token :: string

text \<open>The message of line 58, with its two quotation marks.\<close>

definition missing_kid :: string where
  "missing_kid = ''Token header is missing '' @ [CHR 0x27] @ ''kid'' @ [CHR 0x27]"

text \<open>Lines 53 to 77, the body of the \<^verbatim>\<open>try\<close>, on the key set \<^verbatim>\<open>get_jwks\<close> returned.\<close>

definition verify_token_try ::
  "(string \<Rightarrow> jwt option) \<Rightarrow> int \<Rightarrow> jwk list \<Rightarrow> string \<Rightarrow> exn + verified" where
  "verify_token_try load now jwks tok =
     (case get_unverified_header_kid load tok of
        Inl e \<Rightarrow> Inl e
      | Inr kid \<Rightarrow>
          (case kid of
             None \<Rightarrow> Inl (InvalidTokenError missing_kid)
           | Some k \<Rightarrow>
               if k = [] then Inl (InvalidTokenError missing_kid)
               else (case find_signing_key jwks k of
                       Inl e \<Rightarrow> Inl e
                     | Inr None \<Rightarrow> Inl (InvalidTokenError ''Signing key not found in JWKS'')
                     | Inr (Some signing_key) \<Rightarrow>
                         (case jwt_decode load now tok signing_key [''ES256''] ''authenticated'' 0 of
                            Inl e \<Rightarrow> Inl e
                          | Inr p \<Rightarrow> Inr \<lparr>user = p, token = tok\<rparr>))))"

text \<open>
  \<^verbatim>\<open>verify_token\<close>: what it returns or raises, and the cache \<^verbatim>\<open>get_jwks\<close> left. \<open>reply\<close>
  is the answer of the key-set endpoint, should \<^verbatim>\<open>get_jwks\<close> ask.
\<close>

definition verify_token ::
  "(string \<Rightarrow> jwt option) \<Rightarrow> http_reply \<Rightarrow> int \<Rightarrow> jwks_cache \<Rightarrow> string option
     \<Rightarrow> (exn + verified) \<times> jwks_cache" where
  "verify_token load reply now cache auth_header =
     (case bearer_token auth_header of
        None \<Rightarrow> (Inl (HTTPException 401 ''Not authenticated''), cache)
      | Some tok \<Rightarrow>
          (let r = get_jwks reply now cache in
             (verify_token_except
                (case returned r of
                   Inl e \<Rightarrow> Inl e
                 | Inr jwks \<Rightarrow> verify_token_try load now jwks tok),
              cache_after r)))"

section \<open>\<^verbatim>\<open>get_current_user\<close> (\<^verbatim>\<open>app/api/deps.py\<close>)\<close>

text \<open>
  Line 25 compares \<^verbatim>\<open>Request.method\<close> with a string. \<^verbatim>\<open>Request\<close> is the class, not a
  request, so the attribute is the property object the class defines; Python's \<^verbatim>\<open>==\<close>
  between a property object and a string is false.
\<close>

datatype pyobj = PyStr string | PyProperty

fun py_eq :: "pyobj \<Rightarrow> pyobj \<Rightarrow> bool" where
  "py_eq (PyStr a) (PyStr b) = (a = b)"
| "py_eq PyProperty PyProperty = True"
| "py_eq a b = False"

definition Request_method :: pyobj where
  "Request_method = PyProperty"

record user_info =
  user_id :: "string option"
  email :: "string option"
  role :: string

text \<open>The inner \<^verbatim>\<open>except\<close> clauses (lines 54 to 64) and the outer ones (lines 66 to 70).\<close>

fun inner_except :: "exn + 'a \<Rightarrow> exn + 'a" where
  "inner_except (Inl ExpiredSignatureError) = Inl (HTTPException 401 ''Token has expired'')"
| "inner_except (Inl (InvalidTokenError m)) = Inl (HTTPException 401 ''Invalid authentication token'')"
| "inner_except r = r"

fun outer_except :: "exn + 'a \<Rightarrow> exn + 'a" where
  "outer_except (Inl (HTTPException s d)) = Inl (HTTPException s d)"
| "outer_except (Inl e) = Inl (AuthenticationError (''Authentication failed: '' @ exn_str e))"
| "outer_except (Inr x) = Inr x"

text \<open>Lines 34 to 52: the token is decoded with the shared secret, HS256, the audience
  and a leeway of 10 seconds; a \<^verbatim>\<open>user_id\<close> that is \<^verbatim>\<open>None\<close> or empty raises.\<close>

definition get_current_user_try ::
  "(string \<Rightarrow> jwt option) \<Rightarrow> int \<Rightarrow> string \<Rightarrow> string \<Rightarrow> exn + user_info" where
  "get_current_user_try load now supabase_secret_key tok =
     (case jwt_decode load now tok (SharedSecret supabase_secret_key) [''HS256''] ''authenticated'' 10 of
        Inl e \<Rightarrow> Inl e
      | Inr p \<Rightarrow>
          (let info = \<lparr>user_id = claim_sub p, email = claim_email p,
                       role = (case claim_role p of None \<Rightarrow> ''authenticated'' | Some r \<Rightarrow> r)\<rparr>
           in if user_id info = None \<or> user_id info = Some []
              then Inl (AuthenticationError ''Invalid token: missing user ID'')
              else Inr info))"

text \<open>\<^verbatim>\<open>get_current_user\<close> on the token of the credentials; \<open>Inr None\<close> is the
  \<^verbatim>\<open>return None\<close> of line 26.\<close>

definition get_current_user ::
  "(string \<Rightarrow> jwt option) \<Rightarrow> int \<Rightarrow> string \<Rightarrow> string \<Rightarrow> exn + user_info option" where
  "get_current_user load now supabase_secret_key tok =
     (if py_eq Request_method (PyStr ''OPTIONS'') then Inr None
      else outer_except
             (case inner_except (get_current_user_try load now supabase_secret_key tok) of
                Inl e \<Rightarrow> Inl e
              | Inr info \<Rightarrow> Inr (Some info)))"

section \<open>The Stripe webhook (\<^verbatim>\<open>app/api/endpoints/webnooks.py\<close>)\<close>

text \<open>
  Evaluating \<^verbatim>\<open>settings.STRIPE_WEBHOOK_SECRET\<close> gives \<^verbatim>\<open>None\<close> or a string, or raises
  \<^verbatim>\<open>AttributeError\<close> when the settings object has no attribute of that name
  (\<^verbatim>\<open>app/core/config.py\<close> declares the field \<^verbatim>\<open>stripe_webhook_secret\<close>, and the property
  \<^verbatim>\<open>STRIPE_WEBHOOK_SECRET\<close> is commented out there).
\<close>

datatype setting = No_attribute | Setting "string option"

text \<open>
  What the endpoint takes from outside the repository, for one request: the clock, the
  setting, HMAC-SHA256 as a function from key and message to the hexadecimal digest,
  Python's \<^verbatim>\<open>int\<close> on a string (\<open>None\<close> for \<^verbatim>\<open>ValueError\<close>), whether the payload bytes
  are valid UTF-8, \<^verbatim>\<open>json.loads\<close> with the construction of the event (\<open>None\<close> for
  \<^verbatim>\<open>ValueError\<close>), and the handling of an event (lines 113 to 159), which raises or
  completes with the event's type. Text is held as its UTF-8 bytes.
\<close>

record 'ev world =
  time_now :: int
  STRIPE_WEBHOOK_SECRET :: setting
  hmac_sha256_hexdigest :: "string \<Rightarrow> string \<Rightarrow> string"
  py_int :: "string \<Rightarrow> int option"
  utf8_ok :: "string \<Rightarrow> bool"
  json_loads :: "string \<Rightarrow> 'ev option"
  handle_event :: "'ev \<Rightarrow> exn + string"

text \<open>The lines the endpoint logs, by what they report.\<close>

datatype log_item =
    Missing_signature_header
  | Secret_not_configured
  | Timestamp_too_old int
  | Expected_signature string
  | Signature_match bool
  | Debug_verification_error exn
  | Verification_successful
  | Invalid_payload_format
  | Signature_verification_failed
  | Successfully_processed string
  | Webhook_HTTP_error nat string
  | Unexpected_error exn

subsection \<open>The manual verification (lines 47 to 97)\<close>

text \<open>Lines 54 to 62: the last part that starts with \<^verbatim>\<open>t=\<close> gives the timestamp, every
  part that starts with \<^verbatim>\<open>v1=\<close> a candidate signature.\<close>

definition parse_signature_header :: "string \<Rightarrow> string option \<times> string list" where
  "parse_signature_header stripe_signature =
     foldl (\<lambda>(timestamp, signatures) part.
              if startswith part ''t='' then (Some (drop 2 part), signatures)
              else if startswith part ''v1='' then (timestamp, signatures @ [drop 3 part])
              else (timestamp, signatures))
       (None, []) (split CHR '','' stripe_signature)"

text \<open>
  \<^verbatim>\<open>any(hmac.compare_digest(expected, sig) for sig in signatures)\<close>: the candidates are
  compared in order up to the first equal one; \<^verbatim>\<open>compare_digest\<close> raises \<^verbatim>\<open>TypeError\<close> on
  a string with a character outside ASCII.
\<close>

fun any_compare_digest :: "string \<Rightarrow> string list \<Rightarrow> exn + bool" where
  "any_compare_digest expected [] = Inr False"
| "any_compare_digest expected (sig # sigs) =
     (if \<not> list_all (\<lambda>c. (of_char c :: nat) < 128) sig then Inl TypeError
      else if expected = sig then Inr True
      else any_compare_digest expected sigs)"

text \<open>
  The body of the inner \<^verbatim>\<open>try\<close>: \<^verbatim>\<open>signature_match\<close> or the exception that ended the block,
  and what was logged on the way. A timestamp that is \<^verbatim>\<open>None\<close> or empty skips the age
  check, and \<^verbatim>\<open>None\<close> is formatted as the text \<^verbatim>\<open>None\<close>.
\<close>

definition manual_signature_check ::
  "'ev world \<Rightarrow> string \<Rightarrow> string \<Rightarrow> string \<Rightarrow> (exn + bool) \<times> log_item list" where
  "manual_signature_check w secret stripe_signature payload =
     (let (timestamp, signatures) = parse_signature_header stripe_signature;
          age = (case timestamp of
                   None \<Rightarrow> Inr []
                 | Some ts \<Rightarrow>
                     if ts = [] then Inr []
                     else (case py_int w ts of
                             None \<Rightarrow> Inl ValueError
                           | Some webhook_time \<Rightarrow>
                               (let time_diff = \<bar>time_now w - webhook_time\<bar>
                                in Inr (if time_diff > 300 then [Timestamp_too_old time_diff] else []))))
      in case age of
           Inl e \<Rightarrow> (Inl e, [])
         | Inr warned \<Rightarrow>
             if \<not> utf8_ok w payload then (Inl UnicodeDecodeError, warned)
             else (let signed_payload =
                         (case timestamp of None \<Rightarrow> ''None'' | Some ts \<Rightarrow> ts) @ ''.'' @ payload;
                       expected_signature = hmac_sha256_hexdigest w secret signed_payload
                   in case any_compare_digest expected_signature signatures of
                        Inl e \<Rightarrow> (Inl e, warned @ [Expected_signature expected_signature])
                      | Inr signature_match \<Rightarrow>
                          (Inr signature_match,
                           warned @ [Expected_signature expected_signature,
                                     Signature_match signature_match])))"

subsection \<open>\<^verbatim>\<open>stripe.Webhook.construct_event\<close>\<close>

text \<open>
  The call of line 101 is into the Stripe library; it is modelled by what the library's
  \<^verbatim>\<open>construct_event\<close> and \<^verbatim>\<open>WebhookSignature.verify_header\<close> do. Each item of the header
  is split at \<^verbatim>\<open>=\<close> (at most twice); the first item with the key \<^verbatim>\<open>t\<close> gives the timestamp,
  by \<^verbatim>\<open>int\<close>, the items with the key \<^verbatim>\<open>v1\<close> the signatures; an item with a key and no
  \<^verbatim>\<open>=\<close> is an \<^verbatim>\<open>IndexError\<close>. The signed text is the timestamp printed with \<^verbatim>\<open>%d\<close>, a
  dot and the payload. The endpoint passes no tolerance, so it is the library's default of
  300 seconds, the one the comment of line 73 names.
\<close>

definition item_key :: "string \<Rightarrow> string" where
  "item_key i = takeWhile (\<lambda>c. c \<noteq> CHR ''='') i"

definition item_value :: "string \<Rightarrow> string option" where
  "item_value i =
     (case dropWhile (\<lambda>c. c \<noteq> CHR ''='') i of
        [] \<Rightarrow> None
      | eq # rest \<Rightarrow> Some (takeWhile (\<lambda>c. c \<noteq> CHR ''='') rest))"

fun values_of :: "string \<Rightarrow> string list \<Rightarrow> string list option" where
  "values_of k [] = Some []"
| "values_of k (i # items) =
     (if item_key i = k
      then (case item_value i of
              None \<Rightarrow> None
            | Some v \<Rightarrow> (case values_of k items of None \<Rightarrow> None | Some vs \<Rightarrow> Some (v # vs)))
      else values_of k items)"

definition get_timestamp_and_signatures :: "'ev world \<Rightarrow> string \<Rightarrow> (int \<times> string list) option" where
  "get_timestamp_and_signatures w header =
     (let list_items = split CHR '','' header
      in case values_of ''t'' list_items of
           None \<Rightarrow> None
         | Some [] \<Rightarrow> None
         | Some (t # ts) \<Rightarrow>
             (case py_int w t of
                None \<Rightarrow> None
              | Some timestamp \<Rightarrow>
                  (case values_of ''v1'' list_items of
                     None \<Rightarrow> None
                   | Some signatures \<Rightarrow> Some (timestamp, signatures))))"

text \<open>An integer in decimal, as \<^verbatim>\<open>%d\<close> prints it.\<close>

definition digit_chr :: "nat \<Rightarrow> char" where
  "digit_chr n = ''0123456789'' ! n"

function str_nat :: "nat \<Rightarrow> string" where
  "str_nat n = (if n < 10 then [digit_chr n] else str_nat (n div 10) @ [digit_chr (n mod 10)])"
  by pat_completeness auto
termination
  by (relation "measure id") auto

declare str_nat.simps [simp del]

definition str_int :: "int \<Rightarrow> string" where
  "str_int i = (if i < 0 then CHR ''-'' # str_nat (nat (- i)) else str_nat (nat i))"

definition DEFAULT_TOLERANCE :: int where
  "DEFAULT_TOLERANCE = 300"

definition verify_header :: "'ev world \<Rightarrow> string \<Rightarrow> string \<Rightarrow> string \<Rightarrow> int \<Rightarrow> exn + bool" where
  "verify_header w payload header secret tolerance =
     (case get_timestamp_and_signatures w header of
        None \<Rightarrow> Inl (SignatureVerificationError
                       ''Unable to extract timestamp and signatures from header'')
      | Some (timestamp, signatures) \<Rightarrow>
          if signatures = []
          then Inl (SignatureVerificationError ''No signatures found with expected scheme v1'')
          else (let signed_payload = str_int timestamp @ ''.'' @ payload;
                    expected_sig = hmac_sha256_hexdigest w secret signed_payload
                in case any_compare_digest expected_sig signatures of
                     Inl e \<Rightarrow> Inl e
                   | Inr matched \<Rightarrow>
                       if \<not> matched
                       then Inl (SignatureVerificationError
                         ''No signatures found matching the expected signature for payload'')
                       else if tolerance \<noteq> 0 \<and> timestamp < time_now w - tolerance
                       then Inl (SignatureVerificationError
                         (''Timestamp outside the tolerance zone ('' @ str_int timestamp @ '')''))
                       else Inr True))"

text \<open>The payload bytes are decoded as UTF-8 (\<^verbatim>\<open>UnicodeDecodeError\<close> is a \<^verbatim>\<open>ValueError\<close>),
  the header is verified, and the payload is parsed into the event.\<close>

definition construct_event :: "'ev world \<Rightarrow> string \<Rightarrow> string \<Rightarrow> string \<Rightarrow> exn + 'ev" where
  "construct_event w payload sig_header secret =
     (if \<not> utf8_ok w payload then Inl UnicodeDecodeError
      else (case verify_header w payload sig_header secret DEFAULT_TOLERANCE of
              Inl e \<Rightarrow> Inl e
            | Inr ok \<Rightarrow>
                (case json_loads w payload of
                   None \<Rightarrow> Inl ValueError
                 | Some event \<Rightarrow> Inr event)))"

subsection \<open>The endpoint\<close>

record WebhookResponse =
  success :: bool
  message :: string

record webhook_run =
  response :: "exn + WebhookResponse"
  log :: "log_item list"

fun is_ValueError :: "exn \<Rightarrow> bool" where
  "is_ValueError ValueError = True"
| "is_ValueError UnicodeDecodeError = True"
| "is_ValueError e = False"

text \<open>Lines 99 to 163: the library's verification with its two \<^verbatim>\<open>except\<close> clauses, then
  the handling of the event and the response.\<close>

definition verify_and_handle ::
  "'ev world \<Rightarrow> (string \<Rightarrow> string \<Rightarrow> string \<Rightarrow> exn + 'ev) \<Rightarrow> string \<Rightarrow> string \<Rightarrow> string
     \<Rightarrow> (exn + WebhookResponse) \<times> log_item list" where
  "verify_and_handle w construct payload stripe_signature secret =
     (case construct payload stripe_signature secret of
        Inl e \<Rightarrow>
          if is_ValueError e
          then (Inl (HTTPException 400 ''Invalid payload''), [Invalid_payload_format])
          else (case e of
                  SignatureVerificationError m \<Rightarrow>
                    (Inl (HTTPException 400 ''Invalid signature''), [Signature_verification_failed])
                | _ \<Rightarrow> (Inl e, []))
      | Inr event \<Rightarrow>
          (case handle_event w event of
             Inl e \<Rightarrow> (Inl e, [Verification_successful])
           | Inr event_type \<Rightarrow>
               (Inr \<lparr>success = True,
                     message = ''Webhook '' @ event_type @ '' processed successfully''\<rparr>,
                [Verification_successful, Successfully_processed event_type])))"

text \<open>The outer \<^verbatim>\<open>except\<close> clauses, lines 165 to 170.\<close>

fun webhook_except :: "exn + 'a \<Rightarrow> (exn + 'a) \<times> log_item list" where
  "webhook_except (Inl (HTTPException s d)) = (Inl (HTTPException s d), [Webhook_HTTP_error s d])"
| "webhook_except (Inl e) = (Inl (HTTPException 500 ''Webhook processing failed''), [Unexpected_error e])"
| "webhook_except (Inr r) = (Inr r, [])"

text \<open>
  The endpoint, with the block of lines 47 to 97 and the call of line 101 as arguments:
  \<open>manual\<close> is run on the secret, the header and the payload, an exception that ends it is
  logged (line 97), and the result is used for nothing else.
\<close>

definition stripe_webhook_with ::
  "(string \<Rightarrow> string \<Rightarrow> string \<Rightarrow> (exn + bool) \<times> log_item list)
     \<Rightarrow> (string \<Rightarrow> string \<Rightarrow> string \<Rightarrow> exn + 'ev)
     \<Rightarrow> 'ev world \<Rightarrow> string option \<Rightarrow> string \<Rightarrow> webhook_run" where
  "stripe_webhook_with manual construct w stripe_signature payload =
     (let missing = (Inl (HTTPException 400 ''Missing Stripe signature''), [Missing_signature_header]);
          unconfigured = (Inl (HTTPException 500 ''Webhook secret not configured''),
                          [Secret_not_configured]);
          (r, l) =
            (case stripe_signature of
               None \<Rightarrow> missing
             | Some s \<Rightarrow>
                 if s = [] then missing
                 else (case STRIPE_WEBHOOK_SECRET w of
                         No_attribute \<Rightarrow> (Inl AttributeError, [])
                       | Setting None \<Rightarrow> unconfigured
                       | Setting (Some secret) \<Rightarrow>
                           if secret = [] then unconfigured
                           else (let (m, ml) = manual secret s payload;
                                     dl = (case m of
                                             Inl e \<Rightarrow> ml @ [Debug_verification_error e]
                                           | Inr signature_match \<Rightarrow> ml);
                                     (v, vl) = verify_and_handle w construct payload s secret
                                 in (v, dl @ vl))));
          (r', l') = webhook_except r
      in \<lparr>response = r', log = l @ l'\<rparr>)"

definition stripe_webhook :: "'ev world \<Rightarrow> string option \<Rightarrow> string \<Rightarrow> webhook_run" where
  "stripe_webhook w = stripe_webhook_with (manual_signature_check w) (construct_event w) w"

section \<open>Concrete inputs\<close>

text \<open>A key set with one key, fetched at time 1000, and tokens over it: a well-formed
  token is the string \<^verbatim>\<open>tok\<close>; its claims carry the subject and the expiry given, the
  audience \<^verbatim>\<open>authenticated\<close> and an e-mail address.\<close>

definition example_key :: jwk where
  "example_key = \<lparr>jwk_kid = ''key-1'', ec_public_key = Some ''pub-1''\<rparr>"

definition example_cache :: jwks_cache where
  "example_cache = \<lparr>keys = [example_key], last_fetched = 1000\<rparr>"

definition example_claims :: "string option \<Rightarrow> int \<Rightarrow> claims" where
  "example_claims s e =
     \<lparr>claim_sub = s, claim_email = Some ''a@b.com'', claim_role = None,
      claim_aud = Some [''authenticated''], claim_exp = Some e, claim_nbf = None\<rparr>"

text \<open>A token signed with the private key of \<^verbatim>\<open>key-1\<close> (ES256), and one signed with the
  shared secret \<^verbatim>\<open>secret\<close> (HS256).\<close>

definition es256_token :: "string option \<Rightarrow> string option \<Rightarrow> int \<Rightarrow> jwt" where
  "es256_token k s e =
     \<lparr>hdr_alg = ''ES256'', hdr_kid = k, jwt_payload = example_claims s e,
      signature_ok = (\<lambda>a key. a = ''ES256'' \<and> key = ECPublicKey ''pub-1'')\<rparr>"

definition hs256_token :: "string option \<Rightarrow> int \<Rightarrow> jwt" where
  "hs256_token s e =
     \<lparr>hdr_alg = ''HS256'', hdr_kid = None, jwt_payload = example_claims s e,
      signature_ok = (\<lambda>a key. a = ''HS256'' \<and> key = SharedSecret ''secret'')\<rparr>"

definition example_load :: "jwt \<Rightarrow> string \<Rightarrow> jwt option" where
  "example_load t s = (if s = ''tok'' then Some t else None)"

text \<open>
  A webhook request: the payload \<^verbatim>\<open>{"type":"ping","data":{"object":{}}}\<close>, and a header
  with the timestamp 1000 and the HMAC-SHA256, under the secret \<^verbatim>\<open>whsec_test\<close>, of the
  timestamp, a dot and the payload. The payload parses into an event of the type
  \<^verbatim>\<open>ping\<close>; lines 114 and 115 find its type and its object, no branch of lines 120 to 154
  is for that type, and the handling completes at line 157.
\<close>

definition quoted :: "string \<Rightarrow> string" where
  "quoted s = [CHR 0x22] @ s @ [CHR 0x22]"

definition example_payload :: string where
  "example_payload = ''{'' @ quoted ''type'' @ '':'' @ quoted ''ping'' @ '','' @ quoted ''data''
     @ '':{'' @ quoted ''object'' @ '':{}}}''"

definition example_digest :: string where
  "example_digest = ''6ba8e150db1ffcf0bf1de4855afeb7f84b088e0f4ad68aba5dd9a0c819249239''"

definition example_header :: string where
  "example_header = ''t=1000,v1='' @ example_digest"

definition example_hmac :: "string \<Rightarrow> string \<Rightarrow> string" where
  "example_hmac k m =
     (if k = ''whsec_test'' \<and> m = ''1000.'' @ example_payload then example_digest
      else if k = ''whsec_test'' \<and> m = ''01000.'' @ example_payload
        then ''3febff40eb6d1c09771f4417ed55bf7e717260d385c28396408ebafc014e1f84''
      else [])"

fun decimal_digits :: "string \<Rightarrow> nat \<Rightarrow> nat option" where
  "decimal_digits [] acc = Some acc"
| "decimal_digits (c # cs) acc =
     (if 48 \<le> (of_char c :: nat) \<and> (of_char c :: nat) \<le> 57
      then decimal_digits cs (10 * acc + (of_char c - 48))
      else None)"

definition example_int :: "string \<Rightarrow> int option" where
  "example_int s = (if s = [] then None else map_option int (decimal_digits s 0))"

text \<open>
  The world of the repository at the time \<open>t\<close>: its settings object has the field
  \<^verbatim>\<open>stripe_webhook_secret\<close> and no attribute \<^verbatim>\<open>STRIPE_WEBHOOK_SECRET\<close>. HMAC is
  HMAC-SHA256 on the two messages the examples sign, \<^verbatim>\<open>int\<close> is Python's on strings of
  ASCII digits, and the only payload is the one above.
\<close>

definition example_world :: "int \<Rightarrow> string world" where
  "example_world t =
     \<lparr>time_now = t, STRIPE_WEBHOOK_SECRET = No_attribute,
      hmac_sha256_hexdigest = example_hmac, py_int = example_int, utf8_ok = (\<lambda>p. True),
      json_loads = (\<lambda>p. if p = example_payload then Some ''ping'' else None),
      handle_event = (\<lambda>ev. Inr ev)\<rparr>"


section \<open>The key-set cache: theorems\<close>

lemma get_jwks_hit:
  "keys cache \<noteq> [] \<Longrightarrow> t - last_fetched cache \<le> CACHE_LIFETIME_SECONDS \<Longrightarrow>
   get_jwks reply t cache = \<lparr>returned = Inr (keys cache), cache_after = cache, remote_fetches = 0\<rparr>"
  by (simp add: get_jwks_def)

lemma get_jwks_fetched:
  "remote_fetches (get_jwks reply t cache) = 1 \<Longrightarrow> returned (get_jwks reply t cache) = Inr ks \<Longrightarrow>
   cache_after (get_jwks reply t cache) = \<lparr>keys = ks, last_fetched = t\<rparr>"
  by (auto simp: get_jwks_def split: if_splits sum.splits exn.splits)

lemma get_jwks_expired:
  "t - last_fetched cache > CACHE_LIFETIME_SECONDS \<Longrightarrow> remote_fetches (get_jwks reply t cache) = 1"
  by (auto simp: get_jwks_def split: sum.splits exn.splits)

text \<open>While the cache holds keys and is within its lifetime, every call of a sequence is
  a hit: induction on the sequence, the cache being the same after each call.\<close>

lemma get_jwks_calls_hits:
  "keys cache \<noteq> [] \<Longrightarrow>
   \<forall>(reply, t) \<in> set calls. t - last_fetched cache \<le> CACHE_LIFETIME_SECONDS \<Longrightarrow>
   \<forall>r \<in> set (get_jwks_calls cache calls).
     returned r = Inr (keys cache) \<and> remote_fetches r = 0 \<and> cache_after r = cache"
proof (induction calls)
  case Nil
  then show ?case by simp
next
  case (Cons c calls)
  obtain reply t where c: "c = (reply, t)" by (cases c)
  from Cons.prems c have "t - last_fetched cache \<le> CACHE_LIFETIME_SECONDS" by simp
  with Cons.prems(1) have hit: "get_jwks reply t cache =
      \<lparr>returned = Inr (keys cache), cache_after = cache, remote_fetches = 0\<rparr>"
    by (rule get_jwks_hit)
  from Cons.prems have "\<forall>(reply, t) \<in> set calls. t - last_fetched cache \<le> CACHE_LIFETIME_SECONDS"
    by simp
  with Cons.IH Cons.prems(1) have "\<forall>r \<in> set (get_jwks_calls cache calls).
     returned r = Inr (keys cache) \<and> remote_fetches r = 0 \<and> cache_after r = cache"
    by blast
  with hit c show ?case by (simp add: Let_def)
qed

text \<open>
  A fetch that raises leaves the cache as it was and returns no keys, stale or not; a
  failure that \<^verbatim>\<open>requests\<close> reports (no answer, a status from 400, a body that is not
  JSON) is raised as the HTTP error 503.
\<close>

lemma get_jwks_fetch_failure:
  assumes "keys cache = [] \<or> t - last_fetched cache > CACHE_LIFETIME_SECONDS"
    and "fetch_keys reply = Inl e"
  shows "cache_after (get_jwks reply t cache) = cache"
    and "\<exists>e'. returned (get_jwks reply t cache) = Inl e'"
    and "e = RequestException m \<Longrightarrow>
           returned (get_jwks reply t cache) = Inl (HTTPException 503 (''Could not fetch JWKS: '' @ m))"
  using assms by (auto simp: get_jwks_def split: exn.splits)

text \<open>
  C4. A fetch that is attempted and fails makes \<^verbatim>\<open>get_jwks\<close> fail with the HTTP error
  503. Not so for a malformed body that is JSON: the remote end answers 200 with a JSON
  object that has no member \<^verbatim>\<open>keys\<close>, the cache is past its lifetime, and \<^verbatim>\<open>get_jwks\<close>
  raises \<^verbatim>\<open>KeyError\<close>, which the \<^verbatim>\<open>except\<close> clause for \<^verbatim>\<open>RequestException\<close> does not catch.
  The cache is left as it was and the stale keys are not returned.
\<close>

theorem get_jwks_body_without_keys:
  "get_jwks (Reply 200 JSONNoKeys) 5000 example_cache =
     \<lparr>returned = Inl (KeyError ''keys''), cache_after = example_cache, remote_fetches = 1\<rparr>"
  by (simp add: get_jwks_def example_cache_def CACHE_LIFETIME_SECONDS_def)

text \<open>
  C5, as stated, fails for a fetch that succeeds with an empty key array: the cache then
  holds no keys, and the next call fetches again although it is within the lifetime.
\<close>

theorem get_jwks_empty_key_set_refetched:
  "returned (get_jwks (Reply 200 (JSONKeys [])) 100 initial_jwks_cache) = Inr []
   \<and> 101 - 100 \<le> CACHE_LIFETIME_SECONDS
   \<and> remote_fetches (get_jwks (Reply 200 (JSONKeys [])) 101
        (cache_after (get_jwks (Reply 200 (JSONKeys [])) 100 initial_jwks_cache))) = 1"
  by (simp add: get_jwks_def initial_jwks_cache_def CACHE_LIFETIME_SECONDS_def)

text \<open>
  C5, amended. After a remote fetch at time \<open>t0\<close> that returned a key set that is not
  empty, every later call at a time \<open>t\<close> with \<open>t - t0 \<le> 3600\<close> returns that key set
  without a remote fetch, whatever the remote end would answer, and leaves the cache as it
  is; a call at a time \<open>t'\<close> with \<open>t' - t0 > 3600\<close> makes exactly one remote fetch.
\<close>

theorem get_jwks_cache_window:
  assumes "remote_fetches (get_jwks reply0 t0 cache0) = 1"
    and "returned (get_jwks reply0 t0 cache0) = Inr ks"
    and "ks \<noteq> []"
    and "\<forall>(reply, t) \<in> set calls. t - t0 \<le> CACHE_LIFETIME_SECONDS"
    and "t' - t0 > CACHE_LIFETIME_SECONDS"
  shows "(\<forall>r \<in> set (get_jwks_calls (cache_after (get_jwks reply0 t0 cache0)) calls).
            returned r = Inr ks \<and> remote_fetches r = 0
            \<and> cache_after r = cache_after (get_jwks reply0 t0 cache0))
         \<and> remote_fetches (get_jwks reply' t' (cache_after (get_jwks reply0 t0 cache0))) = 1"
proof -
  let ?c = "cache_after (get_jwks reply0 t0 cache0)"
  have c: "?c = \<lparr>keys = ks, last_fetched = t0\<rparr>"
    using assms(1,2) by (rule get_jwks_fetched)
  have "\<forall>r \<in> set (get_jwks_calls ?c calls).
     returned r = Inr (keys ?c) \<and> remote_fetches r = 0 \<and> cache_after r = ?c"
    by (rule get_jwks_calls_hits) (use assms(3,4) c in simp_all)
  moreover have "remote_fetches (get_jwks reply' t' ?c) = 1"
    by (rule get_jwks_expired) (use assms(5) c in simp)
  ultimately show ?thesis using c by simp
qed

theorem get_jwks_cache_window_witness:
  "cache_after (get_jwks (Reply 200 (JSONKeys [example_key])) 1000 initial_jwks_cache)
     = example_cache
   \<and> map remote_fetches
       (get_jwks_calls example_cache [(NetworkError ''down'', 1001), (Reply 500 NotJSON, 4600)])
     = [0, 0]
   \<and> map returned
       (get_jwks_calls example_cache [(NetworkError ''down'', 1001), (Reply 500 NotJSON, 4600)])
     = [Inr [example_key], Inr [example_key]]
   \<and> remote_fetches (get_jwks (NetworkError ''down'') 4601 example_cache) = 1"
proof -
  let ?r0 = "get_jwks (Reply 200 (JSONKeys [example_key])) 1000 initial_jwks_cache"
  let ?calls = "[(NetworkError ''down'', 1001), (Reply 500 NotJSON, 4600 :: int)]"
  have r0: "?r0 = \<lparr>returned = Inr [example_key], cache_after = example_cache, remote_fetches = 1\<rparr>"
    by (simp add: get_jwks_def initial_jwks_cache_def example_cache_def)
  have a1: "remote_fetches ?r0 = 1" and a2: "returned ?r0 = Inr [example_key]"
    by (simp_all add: r0)
  have a3: "[example_key] \<noteq> []" by simp
  have a4: "\<forall>(reply, t) \<in> set ?calls. t - 1000 \<le> CACHE_LIFETIME_SECONDS"
    by (simp add: CACHE_LIFETIME_SECONDS_def)
  have a5: "4601 - 1000 > CACHE_LIFETIME_SECONDS"
    by (simp add: CACHE_LIFETIME_SECONDS_def)
  from get_jwks_cache_window [OF a1 a2 a3 a4 a5, of "NetworkError ''down''"] r0
  show ?thesis
    by (simp add: get_jwks_def example_cache_def CACHE_LIFETIME_SECONDS_def Let_def)
qed

section \<open>Token verification: theorems\<close>

lemma find_signing_key_unknown:
  "k \<notin> jwk_kid ` set jwks \<Longrightarrow> find_signing_key jwks k = Inr None"
  by (induction jwks) auto

text \<open>\<^verbatim>\<open>get_current_user\<close> rejects a decoded token without a subject, with the status 401.\<close>

lemma get_current_user_missing_user_id:
  assumes "jwt_decode load now tok (SharedSecret secret) [''HS256''] ''authenticated'' 10 = Inr p"
    and "claim_sub p = None \<or> claim_sub p = Some []"
  shows "get_current_user load now secret tok =
           Inl (AuthenticationError ''Authentication failed: Invalid token: missing user ID'')"
    and "\<exists>e. get_current_user load now secret tok = Inl e \<and> status_code e = Some 401"
  using assms
  by (auto simp: get_current_user_def get_current_user_try_def Request_method_def Let_def)

text \<open>\<^verbatim>\<open>get_current_user\<close> applies its leeway of 10 seconds: a token that is valid but for
  its expiry fails as expired from 10 seconds past the expiry on and succeeds before.\<close>

lemma get_current_user_leeway:
  assumes "load tok = Some t" and "hdr_alg t = ''HS256''"
    and "signature_ok t ''HS256'' (SharedSecret secret)"
    and "claim_nbf (jwt_payload t) = None"
    and "claim_exp (jwt_payload t) = Some e"
    and "claim_aud (jwt_payload t) = Some [''authenticated'']"
    and "claim_sub (jwt_payload t) = Some uid" and "uid \<noteq> []"
  shows "now - e \<ge> 10 \<Longrightarrow>
           get_current_user load now secret tok = Inl (HTTPException 401 ''Token has expired'')"
    and "now - e < 10 \<Longrightarrow>
           get_current_user load now secret tok =
             Inr (Some \<lparr>user_id = Some uid, email = claim_email (jwt_payload t),
                        role = (case claim_role (jwt_payload t) of
                                  None \<Rightarrow> ''authenticated'' | Some r \<Rightarrow> r)\<rparr>)"
  using assms
  by (auto simp: get_current_user_def get_current_user_try_def Request_method_def Let_def
      jwt_decode_def validate_claims_def)

text \<open>
  C1. A token whose signature verifies and whose subject is missing or empty must fail
  verification on every path. \<^verbatim>\<open>get_current_user\<close> raises for it; \<^verbatim>\<open>verify_token\<close> does
  not look at the subject: for a token signed by a key of the key set, of the right
  audience, not expired and with the subject \<^verbatim>\<open>""\<close>, it returns the claims.
\<close>

theorem verify_token_returns_empty_subject:
  "fst (verify_token (example_load (es256_token (Some ''key-1'') (Some []) 2000))
          (NetworkError ''down'') 1500 example_cache (Some ''Bearer tok''))
     = Inr \<lparr>user = example_claims (Some []) 2000, token = ''tok''\<rparr>
   \<and> get_current_user (example_load (hs256_token (Some []) 2000)) 1500 ''secret'' ''tok''
     = Inl (AuthenticationError ''Authentication failed: Invalid token: missing user ID'')"
  by code_simp

text \<open>
  C2. Token verification applies a positive leeway to the expiry. \<^verbatim>\<open>get_current_user\<close>
  passes \<^verbatim>\<open>leeway=10\<close>; \<^verbatim>\<open>verify_token\<close> passes none, so the library's default of 0
  applies: a token that expired 5 seconds ago, valid otherwise, is refused by
  \<^verbatim>\<open>verify_token\<close> as expired, and accepted by \<^verbatim>\<open>get_current_user\<close>.
\<close>

theorem verify_token_applies_no_leeway:
  "fst (verify_token (example_load (es256_token (Some ''key-1'') (Some ''user-1'') 1495))
          (NetworkError ''down'') 1500 example_cache (Some ''Bearer tok''))
     = Inl (HTTPException 401 ''Token has expired'')
   \<and> get_current_user (example_load (hs256_token (Some ''user-1'') 1495)) 1500 ''secret'' ''tok''
     = Inr (Some \<lparr>user_id = Some ''user-1'', email = Some ''a@b.com'', role = ''authenticated''\<rparr>)"
  by code_simp

text \<open>\<^verbatim>\<open>verify_token\<close> refuses a token already at the second of its expiry.\<close>

lemma verify_token_refuses_at_expiry:
  "fst (verify_token (example_load (es256_token (Some ''key-1'') (Some ''user-1'') 1500))
          (NetworkError ''down'') 1500 example_cache (Some ''Bearer tok''))
     = Inl (HTTPException 401 ''Token has expired'')"
  by code_simp

text \<open>
  C7. For a token whose header carries a \<^verbatim>\<open>kid\<close> that is the identifier of no key of the
  key set \<^verbatim>\<open>get_jwks\<close> returned, \<^verbatim>\<open>verify_token\<close> raises the HTTP error 401 with the detail
  \<^verbatim>\<open>Invalid token: Signing key not found in JWKS\<close> (for an empty \<^verbatim>\<open>kid\<close>, 401 with the
  detail that the \<^verbatim>\<open>kid\<close> is missing): whatever the signature is, and whenever the key set
  was fetched.
\<close>

theorem verify_token_unknown_kid:
  assumes "bearer_token auth_header = Some tok"
    and "load tok = Some t"
    and "hdr_kid t = Some k"
    and "returned (get_jwks reply now cache) = Inr jwks"
    and "k \<notin> jwk_kid ` set jwks"
  shows "fst (verify_token load reply now cache auth_header) =
           Inl (HTTPException 401
                  (''Invalid token: '' @
                     (if k = [] then missing_kid else ''Signing key not found in JWKS'')))"
proof -
  have "find_signing_key jwks k = Inr None"
    using assms(5) by (rule find_signing_key_unknown)
  then have "verify_token_try load now jwks tok =
      Inl (InvalidTokenError (if k = [] then missing_kid else ''Signing key not found in JWKS''))"
    using assms(2,3) by (simp add: verify_token_try_def get_unverified_header_kid_def)
  then show ?thesis
    using assms(1,4) by (simp add: verify_token_def Let_def)
qed

theorem verify_token_unknown_kid_witness:
  "fst (verify_token (example_load (es256_token (Some ''key-2'') (Some ''user-1'') 2000))
          (NetworkError ''down'') 1500 example_cache (Some ''Bearer tok''))
     = Inl (HTTPException 401 ''Invalid token: Signing key not found in JWKS'')"
proof -
  let ?t = "es256_token (Some ''key-2'') (Some ''user-1'') 2000"
  have a1: "bearer_token (Some ''Bearer tok'') = Some ''tok''"
    by code_simp
  have a2: "example_load ?t ''tok'' = Some ?t"
    by (simp add: example_load_def)
  have a3: "hdr_kid ?t = Some ''key-2''"
    by (simp add: es256_token_def)
  have a4: "returned (get_jwks (NetworkError ''down'') 1500 example_cache) = Inr [example_key]"
    by (simp add: get_jwks_def example_cache_def CACHE_LIFETIME_SECONDS_def)
  have a5: "''key-2'' \<notin> jwk_kid ` set [example_key]"
    by (simp add: example_key_def)
  from verify_token_unknown_kid
    [where load = "example_load ?t" and tok = "''tok''" and t = ?t, OF a1 a2 a3 a4 a5]
  show ?thesis by simp
qed

text \<open>
  C10. \<^verbatim>\<open>get_current_user\<close> never returns \<^verbatim>\<open>None\<close>: the guard of line 25 compares the
  property object \<^verbatim>\<open>Request.method\<close> with a string and is false on every call, and a
  dictionary that is returned has a \<^verbatim>\<open>user_id\<close> that is neither \<^verbatim>\<open>None\<close> nor empty.
\<close>

theorem get_current_user_never_none:
  "py_eq Request_method (PyStr ''OPTIONS'') = False
   \<and> get_current_user load now secret tok \<noteq> Inr None
   \<and> (\<forall>info. get_current_user load now secret tok = Inr (Some info)
         \<longrightarrow> (\<exists>uid. user_id info = Some uid \<and> uid \<noteq> []))"
proof -
  have guard: "py_eq Request_method (PyStr ''OPTIONS'') = False"
    by (simp add: Request_method_def)
  have ok: "user_id info \<noteq> None \<and> user_id info \<noteq> Some []"
    if "get_current_user_try load now secret tok = Inr info" for info
    using that by (auto simp: get_current_user_try_def Let_def split: sum.splits if_splits)
  show ?thesis
  proof (cases "get_current_user_try load now secret tok")
    case (Inl e)
    then have "\<exists>e'. get_current_user load now secret tok = Inl e'"
      by (cases e) (simp_all add: get_current_user_def guard)
    then show ?thesis using guard by auto
  next
    case (Inr info)
    then have "get_current_user load now secret tok = Inr (Some info)"
      by (simp add: get_current_user_def guard)
    with ok [OF Inr] guard show ?thesis by auto
  qed
qed

theorem get_current_user_never_none_witness:
  "get_current_user (example_load (hs256_token (Some ''user-1'') 2000)) 1500 ''secret'' ''tok''
     = Inr (Some \<lparr>user_id = Some ''user-1'', email = Some ''a@b.com'', role = ''authenticated''\<rparr>)
   \<and> (\<exists>uid. user_id \<lparr>user_id = Some ''user-1'', email = Some ''a@b.com'', role = ''authenticated''\<rparr>
         = Some uid \<and> uid \<noteq> [])"
proof -
  have r: "get_current_user (example_load (hs256_token (Some ''user-1'') 2000)) 1500 ''secret'' ''tok''
     = Inr (Some \<lparr>user_id = Some ''user-1'', email = Some ''a@b.com'', role = ''authenticated''\<rparr>)"
    by code_simp
  from get_current_user_never_none
    [of "example_load (hs256_token (Some ''user-1'') 2000)" 1500 "''secret''" "''tok''"] r
  show ?thesis by blast
qed

section \<open>The webhook: theorems\<close>

text \<open>What \<^verbatim>\<open>any\<close> over the comparisons returns, and the only exception it raises.\<close>

lemma any_compare_digest_True:
  "any_compare_digest expected sigs = Inr True \<Longrightarrow> expected \<in> set sigs"
  by (induction sigs) (auto split: if_splits)

lemma any_compare_digest_False:
  "any_compare_digest expected sigs = Inr False \<Longrightarrow> expected \<notin> set sigs"
  by (induction sigs) (auto split: if_splits)

text \<open>
  The library accepts a header only if one of its \<^verbatim>\<open>v1\<close> signatures is the HMAC of the
  timestamp in decimal, a dot and the payload, and the timestamp is within the tolerance.
\<close>

lemma verify_header_accepts:
  assumes "verify_header w payload header secret tolerance = Inr ok"
  shows "\<exists>timestamp signatures.
           get_timestamp_and_signatures w header = Some (timestamp, signatures)
           \<and> hmac_sha256_hexdigest w secret (str_int timestamp @ ''.'' @ payload) \<in> set signatures
           \<and> (tolerance = 0 \<or> time_now w - timestamp \<le> tolerance)"
  using assms
  by (auto simp: verify_header_def Let_def dest: any_compare_digest_True
      split: option.splits if_splits sum.splits)

lemma construct_event_accepts:
  assumes "construct_event w payload header secret = Inr ev"
  shows "\<exists>timestamp signatures.
           get_timestamp_and_signatures w header = Some (timestamp, signatures)
           \<and> hmac_sha256_hexdigest w secret (str_int timestamp @ ''.'' @ payload) \<in> set signatures
           \<and> time_now w - timestamp \<le> 300"
proof -
  from assms obtain ok where "verify_header w payload header secret DEFAULT_TOLERANCE = Inr ok"
    by (auto simp: construct_event_def split: if_splits sum.splits)
  from verify_header_accepts [OF this] show ?thesis
    by (auto simp: DEFAULT_TOLERANCE_def)
qed

lemma any_compare_digest_raises:
  "any_compare_digest expected sigs = Inl e \<Longrightarrow> e = TypeError"
  by (induction sigs) (auto split: if_splits)

text \<open>The exceptions \<^verbatim>\<open>construct_event\<close> raises.\<close>

lemma construct_event_raises:
  assumes "construct_event w payload header secret = Inl e"
  shows "e = UnicodeDecodeError \<or> e = ValueError \<or> e = TypeError
         \<or> (\<exists>m. e = SignatureVerificationError m)"
  using assms
  by (auto simp: construct_event_def verify_header_def Let_def
      dest: any_compare_digest_raises
      split: if_splits sum.splits option.splits prod.splits)

text \<open>The response of the endpoint, read off its definition: the log and the manual
  block are gone.\<close>

lemma webhook_except_Inr: "fst (webhook_except r) = Inr x \<longleftrightarrow> r = Inr x"
  by (cases r rule: webhook_except.cases) auto

lemma verify_and_handle_Inr:
  "fst (verify_and_handle w construct payload s secret) = Inr r \<longleftrightarrow>
     (\<exists>ev ty. construct payload s secret = Inr ev \<and> handle_event w ev = Inr ty
        \<and> r = \<lparr>success = True, message = ''Webhook '' @ ty @ '' processed successfully''\<rparr>)"
  by (auto simp: verify_and_handle_def split: sum.splits exn.splits)

lemma stripe_webhook_with_response:
  "response (stripe_webhook_with manual construct w stripe_signature payload) =
     fst (webhook_except
       (case stripe_signature of
          None \<Rightarrow> Inl (HTTPException 400 ''Missing Stripe signature'')
        | Some s \<Rightarrow>
            if s = [] then Inl (HTTPException 400 ''Missing Stripe signature'')
            else (case STRIPE_WEBHOOK_SECRET w of
                    No_attribute \<Rightarrow> Inl AttributeError
                  | Setting None \<Rightarrow> Inl (HTTPException 500 ''Webhook secret not configured'')
                  | Setting (Some secret) \<Rightarrow>
                      if secret = [] then Inl (HTTPException 500 ''Webhook secret not configured'')
                      else fst (verify_and_handle w construct payload s secret))))"
  by (simp add: stripe_webhook_with_def Let_def split: option.splits setting.splits prod.splits)

text \<open>When the settings object has no attribute \<^verbatim>\<open>STRIPE_WEBHOOK_SECRET\<close>, every request
  that carries a signature header ends in the outer handler, with the status 500.\<close>

lemma stripe_webhook_no_attribute:
  assumes "STRIPE_WEBHOOK_SECRET w = No_attribute" and "s \<noteq> []"
  shows "response (stripe_webhook w (Some s) payload)
           = Inl (HTTPException 500 ''Webhook processing failed'')"
  using assms by (simp add: stripe_webhook_def stripe_webhook_with_response)

text \<open>
  C9. The response of the webhook endpoint does not depend on the manual verification of
  lines 47 to 97: whatever that block computes, logs or raises (\<open>manual\<close> is any block in
  its place), the response is the one of the endpoint as it is; and the request is
  accepted exactly when the header and the secret are present, \<^verbatim>\<open>construct_event\<close>
  returns an event and the handling of the event completes.
\<close>

theorem manual_check_does_not_decide:
  "response (stripe_webhook_with manual (construct_event w) w stripe_signature payload)
     = response (stripe_webhook w stripe_signature payload)
   \<and> ((\<exists>r. response (stripe_webhook w stripe_signature payload) = Inr r) \<longleftrightarrow>
        (\<exists>s secret ev ty. stripe_signature = Some s \<and> s \<noteq> []
            \<and> STRIPE_WEBHOOK_SECRET w = Setting (Some secret) \<and> secret \<noteq> []
            \<and> construct_event w payload s secret = Inr ev \<and> handle_event w ev = Inr ty))"
proof -
  have "response (stripe_webhook_with manual (construct_event w) w stripe_signature payload)
     = response (stripe_webhook w stripe_signature payload)"
    by (simp only: stripe_webhook_def stripe_webhook_with_response)
  moreover have "(\<exists>r. response (stripe_webhook w stripe_signature payload) = Inr r) \<longleftrightarrow>
        (\<exists>s secret ev ty. stripe_signature = Some s \<and> s \<noteq> []
            \<and> STRIPE_WEBHOOK_SECRET w = Setting (Some secret) \<and> secret \<noteq> []
            \<and> construct_event w payload s secret = Inr ev \<and> handle_event w ev = Inr ty)"
    unfolding stripe_webhook_def stripe_webhook_with_response webhook_except_Inr
    by (auto simp: verify_and_handle_Inr split: option.splits setting.splits)
  ultimately show ?thesis by simp
qed


text \<open>
  C3. A request whose header carries a timestamp more than the tolerance of 300 seconds in
  the past is rejected: the endpoint raises an HTTP error, with the status 400 or 500,
  whatever the signatures of the header are, the valid one included. (The manual block
  only logs a warning; \<^verbatim>\<open>construct_event\<close> rejects.)
\<close>

theorem stripe_webhook_rejects_old_timestamp:
  assumes "get_timestamp_and_signatures w header = Some (timestamp, signatures)"
    and "timestamp < time_now w - 300"
  shows "\<exists>status detail.
           response (stripe_webhook w (Some header) payload) = Inl (HTTPException status detail)
           \<and> (status = 400 \<or> status = 500)"
proof -
  have no_event: "construct_event w payload header secret \<noteq> Inr ev" for secret ev
  proof
    assume "construct_event w payload header secret = Inr ev"
    from construct_event_accepts [OF this] assms show False by auto
  qed
  have rejected: "\<exists>status detail.
      fst (webhook_except (fst (verify_and_handle w (construct_event w) payload header secret)))
        = Inl (HTTPException status detail) \<and> (status = 400 \<or> status = 500)" for secret
  proof (cases "construct_event w payload header secret")
    case (Inl e)
    from construct_event_raises [OF this] Inl show ?thesis
      by (auto simp: verify_and_handle_def)
  next
    case (Inr ev)
    with no_event show ?thesis by simp
  qed
  show ?thesis
    unfolding stripe_webhook_def stripe_webhook_with_response
    using rejected by (auto split: setting.splits option.splits)
qed

theorem stripe_webhook_rejects_old_timestamp_witness:
  "get_timestamp_and_signatures (example_world 2000) example_header = Some (1000, [example_digest])
   \<and> hmac_sha256_hexdigest (example_world 2000) ''whsec_test'' (''1000.'' @ example_payload)
        = example_digest
   \<and> (1000::int) < time_now (example_world 2000) - 300
   \<and> construct_event (example_world 2000) example_payload example_header ''whsec_test''
        = Inl (SignatureVerificationError ''Timestamp outside the tolerance zone (1000)'')
   \<and> response (stripe_webhook (example_world 2000) (Some example_header) example_payload)
        = Inl (HTTPException 500 ''Webhook processing failed'')"
proof -
  have p: "get_timestamp_and_signatures (example_world 2000) example_header
             = Some (1000, [example_digest])"
    by code_simp
  have t: "(1000::int) < time_now (example_world 2000) - 300"
    by (simp add: example_world_def)
  have h: "hmac_sha256_hexdigest (example_world 2000) ''whsec_test'' (''1000.'' @ example_payload)
        = example_digest"
    by (simp add: example_world_def example_hmac_def)
  have c: "construct_event (example_world 2000) example_payload example_header ''whsec_test''
        = Inl (SignatureVerificationError ''Timestamp outside the tolerance zone (1000)'')"
    by code_simp
  have r: "response (stripe_webhook (example_world 2000) (Some example_header) example_payload)
        = Inl (HTTPException 500 ''Webhook processing failed'')"
    by code_simp
  show ?thesis
    using stripe_webhook_rejects_old_timestamp [OF p t, of example_payload] p t h c r by simp
qed

text \<open>
  C8. Without a \<^verbatim>\<open>stripe-signature\<close> header, or with an empty one, the endpoint raises the
  HTTP error 400 \<^verbatim>\<open>Missing Stripe signature\<close>, and logs the rejection and nothing else: no
  signature is computed and no event is handled, whatever the manual block and
  \<^verbatim>\<open>construct_event\<close> would do.
\<close>

theorem stripe_webhook_missing_signature:
  assumes "stripe_signature = None \<or> stripe_signature = Some []"
  shows "stripe_webhook w stripe_signature payload =
           \<lparr>response = Inl (HTTPException 400 ''Missing Stripe signature''),
            log = [Missing_signature_header, Webhook_HTTP_error 400 ''Missing Stripe signature'']\<rparr>
         \<and> stripe_webhook_with manual construct w stripe_signature payload =
             stripe_webhook w stripe_signature payload"
  using assms by (auto simp: stripe_webhook_def stripe_webhook_with_def)

theorem stripe_webhook_missing_signature_witness:
  "stripe_webhook (example_world 1100) None example_payload =
     \<lparr>response = Inl (HTTPException 400 ''Missing Stripe signature''),
      log = [Missing_signature_header, Webhook_HTTP_error 400 ''Missing Stripe signature'']\<rparr>
   \<and> stripe_webhook (example_world 1100) (Some []) example_payload =
     \<lparr>response = Inl (HTTPException 400 ''Missing Stripe signature''),
      log = [Missing_signature_header, Webhook_HTTP_error 400 ''Missing Stripe signature'']\<rparr>"
  using stripe_webhook_missing_signature [of None "example_world 1100" example_payload]
    stripe_webhook_missing_signature [of "Some []" "example_world 1100" example_payload]
  by simp

text \<open>
  When the manual block completes, \<^verbatim>\<open>signature_match\<close> says whether one of the \<^verbatim>\<open>v1=\<close>
  candidates is the HMAC-SHA256, under the secret, of the timestamp as the header writes
  it, a dot and the payload.
\<close>

lemma manual_signature_check_result:
  assumes "fst (manual_signature_check w secret header payload) = Inr signature_match"
  shows "signature_match \<longleftrightarrow>
           hmac_sha256_hexdigest w secret
             ((case fst (parse_signature_header header) of None \<Rightarrow> ''None'' | Some ts \<Rightarrow> ts)
                @ ''.'' @ payload)
           \<in> set (snd (parse_signature_header header))"
proof (cases signature_match)
  case True
  with assms show ?thesis
    by (auto simp: manual_signature_check_def Let_def dest: any_compare_digest_True
        split: prod.splits sum.splits if_splits option.splits)
next
  case False
  with assms show ?thesis
    by (auto simp: manual_signature_check_def Let_def dest: any_compare_digest_False
        split: prod.splits sum.splits if_splits option.splits)
qed

text \<open>Over candidates that are all ASCII, \<^verbatim>\<open>any\<close> over the comparisons says whether the
  expected signature is among them.\<close>

lemma any_compare_digest_ascii:
  "list_all (list_all (\<lambda>c. (of_char c :: nat) < 128)) sigs \<Longrightarrow>
   any_compare_digest expected sigs = Inr (expected \<in> set sigs)"
  by (induction sigs) auto

text \<open>A request that succeeds went through the library's verification: a \<^verbatim>\<open>v1\<close>
  candidate is the digest and the timestamp is within the tolerance.\<close>

lemma stripe_webhook_success_requires:
  assumes "response (stripe_webhook w stripe_signature payload) = Inr r"
  shows "\<exists>header secret timestamp signatures.
           stripe_signature = Some header
           \<and> STRIPE_WEBHOOK_SECRET w = Setting (Some secret)
           \<and> get_timestamp_and_signatures w header = Some (timestamp, signatures)
           \<and> hmac_sha256_hexdigest w secret (str_int timestamp @ ''.'' @ payload) \<in> set signatures
           \<and> time_now w - timestamp \<le> 300"
proof -
  from assms obtain s secret ev where s: "stripe_signature = Some s"
    and secret: "STRIPE_WEBHOOK_SECRET w = Setting (Some secret)"
    and ev: "construct_event w payload s secret = Inr ev"
    unfolding stripe_webhook_def stripe_webhook_with_response webhook_except_Inr
    by (auto simp: verify_and_handle_Inr split: option.splits setting.splits if_splits)
  from construct_event_accepts [OF ev] s secret show ?thesis by auto
qed

text \<open>
  Lines 99 to 163 on a secret \<open>S\<close>, for a header that parses and whose candidates are
  ASCII, and a payload that is an event whose handling completes: the answer is the
  success exactly when one of the candidates, the first or a later one, is the digest and
  the timestamp is at most 300 seconds in the past, and the HTTP error 400
  \<^verbatim>\<open>Invalid signature\<close> otherwise.
\<close>

lemma verify_and_handle_accepts_iff:
  assumes "utf8_ok w payload"
    and "get_timestamp_and_signatures w header = Some (timestamp, signatures)"
    and "list_all (list_all (\<lambda>c. (of_char c :: nat) < 128)) signatures"
    and "json_loads w payload = Some event"
    and "handle_event w event = Inr event_type"
  shows "fst (verify_and_handle w (construct_event w) payload header S) =
           (if hmac_sha256_hexdigest w S (str_int timestamp @ ''.'' @ payload) \<in> set signatures
               \<and> time_now w - timestamp \<le> 300
            then Inr \<lparr>success = True,
                      message = ''Webhook '' @ event_type @ '' processed successfully''\<rparr>
            else Inl (HTTPException 400 ''Invalid signature''))"
proof -
  let ?d = "hmac_sha256_hexdigest w S (str_int timestamp @ ''.'' @ payload)"
  have cmp: "any_compare_digest ?d signatures = Inr (?d \<in> set signatures)"
    using assms(3) by (rule any_compare_digest_ascii)
  show ?thesis
  proof (cases "?d \<in> set signatures \<and> time_now w - timestamp \<le> 300")
    case True
    then have "signatures \<noteq> []" by auto
    with True cmp assms have "construct_event w payload header S = Inr event"
      by (simp add: construct_event_def verify_header_def DEFAULT_TOLERANCE_def Let_def)
    with True assms(5) show ?thesis
      by (simp add: verify_and_handle_def)
  next
    case False
    with cmp assms(1,2) have "\<exists>m. construct_event w payload header S
        = Inl (SignatureVerificationError m)"
      by (auto simp: construct_event_def verify_header_def DEFAULT_TOLERANCE_def Let_def)
    with False show ?thesis
      by (auto simp: verify_and_handle_def)
  qed
qed

text \<open>
  C6. Verification must succeed for a header one of whose \<^verbatim>\<open>v1=\<close> candidates is the
  HMAC-SHA256, under the secret, of the timestamp, a dot and the payload. The endpoint
  does not: reading \<^verbatim>\<open>settings.STRIPE_WEBHOOK_SECRET\<close> at line 38 raises
  \<^verbatim>\<open>AttributeError\<close>, which the handler of line 168 turns into the HTTP error 500, before a
  signature is computed. The request of the example is 100 seconds old and carries the
  right digest, and lines 99 to 163 would accept it on the secret.
\<close>

theorem stripe_webhook_valid_signature_fails:
  "hmac_sha256_hexdigest (example_world 1100) ''whsec_test'' (''1000.'' @ example_payload)
      \<in> set (snd (parse_signature_header example_header))
   \<and> fst (verify_and_handle (example_world 1100) (construct_event (example_world 1100))
            example_payload example_header ''whsec_test'')
       = Inr \<lparr>success = True, message = ''Webhook ping processed successfully''\<rparr>
   \<and> stripe_webhook (example_world 1100) (Some example_header) example_payload
       = \<lparr>response = Inl (HTTPException 500 ''Webhook processing failed''),
          log = [Unexpected_error AttributeError]\<rparr>"
  by code_simp

text \<open>
  The manual block and the library can disagree: the block signs the timestamp as it is
  written in the header, the library the integer it denotes. For the timestamp
  \<^verbatim>\<open>01000\<close> the block finds no match, and the library accepts.
\<close>

lemma manual_check_disagrees_example:
  "manual_signature_check (example_world 1100) ''whsec_test''
      (''t=01000,v1='' @ example_digest) example_payload
     = (Inr False,
        [Expected_signature ''3febff40eb6d1c09771f4417ed55bf7e717260d385c28396408ebafc014e1f84'',
         Signature_match False])
   \<and> construct_event (example_world 1100) example_payload
        (''t=01000,v1='' @ example_digest) ''whsec_test'' = Inr ''ping''"
  by code_simp

end
